theory Spec2Isabelle
  imports Main "HOL-Library.Sublist"
begin

section \<open>The ZNB vector network analyser driver (drivers/znb.py)\<close>

text \<open>
  The driver talks SCPI text to an instrument through a VISA session. The model threads
  one state through every call: what the instrument is going to answer, what has been
  put on the transport so far, and what the module logger has recorded. Exceptions are
  values of a sum type; the state is returned beside them, since I/O performed before a
  raise stays performed. Strings are ASCII text.
\<close>

subsection \<open>Exceptions\<close>

text \<open>
  Exceptions raised inside a NumPy array operation, by whether an
  \<^verbatim>\<open>except RuntimeError\<close> clause catches them.
\<close>

datatype np_exc = RuntimeErrorInstance | OtherException

text \<open>
  \<open>RuntimeError m\<close> and \<open>ValueError m\<close> are the two exceptions the driver raises itself,
  with their messages. The others come from what the driver calls:
  \<open>IntValueError r\<close> is the ValueError of \<^verbatim>\<open>int(r)\<close>, \<open>ReshapeValueError n\<close> the
  ValueError of \<^verbatim>\<open>np.reshape\<close> on an array of \<open>n\<close> values, \<open>VisaIOError\<close> the
  transport's timeout, \<open>ValidationError\<close> the rejection of an argument by
  \<^verbatim>\<open>@validate_call\<close>, and \<open>NumpyException\<close> an exception out of array arithmetic.
\<close>

datatype error =
    RuntimeError string
  | ValueError string
  | IntValueError string
  | ReshapeValueError nat
  | VisaIOError
  | ValidationError
  | NumpyException np_exc

subsection \<open>The session and the logger\<close>

datatype io = Wrote string | Queried string

datatype reply = Reply string | NoReply

datatype level = DEBUG | ERROR

text \<open>
  \<open>replies\<close> is the instrument's side of the conversation: the answer to each query
  still to come, in order; \<open>NoReply\<close> is a query that runs into the session timeout,
  and so is any query once the list is used up. \<open>wire\<close> is every command line handed to
  the transport, oldest first. \<open>logged\<close> is the records of the module logger.
  \<open>write_termination\<close> is the session attribute set from the configuration.
\<close>

record vna =
  replies :: "reply list"
  wire :: "io list"
  logged :: "(level \<times> string) list"
  write_termination :: string

definition log_record :: "level \<Rightarrow> string \<Rightarrow> vna \<Rightarrow> vna" where
  "log_record l m s = s\<lparr>logged := logged s @ [(l, m)]\<rparr>"

text \<open>
  \<^verbatim>\<open>self.connection.write(cmd)\<close>: the line goes out and the number of characters sent,
  terminator included, comes back.
\<close>

definition connection_write :: "vna \<Rightarrow> string \<Rightarrow> nat \<times> vna" where
  "connection_write s cmd =
     (length cmd + length (write_termination s), s\<lparr>wire := wire s @ [Wrote cmd]\<rparr>)"

text \<open>\<^verbatim>\<open>self.connection.query(cmd)\<close>: the line goes out and the next answer is read.\<close>

definition connection_query :: "vna \<Rightarrow> string \<Rightarrow> (error + string) \<times> vna" where
  "connection_query s cmd =
     (case replies s of
        [] \<Rightarrow> (Inl VisaIOError, s\<lparr>wire := wire s @ [Queried cmd]\<rparr>)
      | NoReply # rs \<Rightarrow> (Inl VisaIOError, s\<lparr>replies := rs, wire := wire s @ [Queried cmd]\<rparr>)
      | Reply r # rs \<Rightarrow> (Inr r, s\<lparr>replies := rs, wire := wire s @ [Queried cmd]\<rparr>))"

subsection \<open>Python's \<^verbatim>\<open>int\<close> on a string\<close>

text \<open>
  A reply is ASCII text (the session decodes what it reads as ASCII). On such a string
  \<^verbatim>\<open>int\<close> skips whitespace at both ends, which is the six characters tab, line feed,
  vertical tab, form feed, carriage return and space, and no other; it allows one sign,
  and takes the rest as decimal digits in which single underscores may stand between two
  digits. A literal of more than 4300 digits is refused, however it is written. Anything
  else raises too.
\<close>

definition is_space :: "char \<Rightarrow> bool" where
  "is_space c = (let n = (of_char c :: nat) in (9 \<le> n \<and> n \<le> 13) \<or> n = 32)"

definition is_digit :: "char \<Rightarrow> bool" where
  "is_digit c = (let n = (of_char c :: nat) in 48 \<le> n \<and> n \<le> 57)"

definition digit_value :: "char \<Rightarrow> int" where
  "digit_value c = int (of_char c) - 48"

definition strip :: "string \<Rightarrow> string" where
  "strip s = rev (dropWhile is_space (rev (dropWhile is_space s)))"

fun digits_from :: "int \<Rightarrow> string \<Rightarrow> int option" where
  "digits_from a [] = Some a"
| "digits_from a (c # cs) =
     (if is_digit c then digits_from (10 * a + digit_value c) cs
      else if c = CHR ''_'' then
        (case cs of
           [] \<Rightarrow> None
         | d # ds \<Rightarrow> if is_digit d then digits_from (10 * a + digit_value d) ds else None)
      else None)"

definition max_str_digits :: nat where
  "max_str_digits = 4300"

definition digits :: "string \<Rightarrow> int option" where
  "digits s =
     (case s of
        [] \<Rightarrow> None
      | c # cs \<Rightarrow>
          if is_digit c then
            (case digits_from (digit_value c) cs of
               None \<Rightarrow> None
             | Some v \<Rightarrow> if max_str_digits < length (filter is_digit s) then None else Some v)
          else None)"

definition py_int :: "string \<Rightarrow> int option" where
  "py_int s =
     (case strip s of
        [] \<Rightarrow> None
      | c # cs \<Rightarrow>
          if c = CHR ''-'' then map_option uminus (digits cs)
          else if c = CHR ''+'' then digits cs
          else digits (c # cs))"

text \<open>A query uses up an answer, a command none.\<close>

lemma connection_query_replies:
  "connection_query s cmd = (Inr r, s') \<Longrightarrow> length (replies s') < length (replies s)"
  by (auto simp: connection_query_def split: list.splits reply.splits)

lemma connection_query_replies_le:
  "connection_query s cmd = (r, s') \<Longrightarrow> length (replies s') \<le> length (replies s)"
  by (auto simp: connection_query_def split: list.splits reply.splits)

lemma connection_query_twice:
  "(x, s1) = connection_query s cmd \<Longrightarrow> x = Inr r \<Longrightarrow>
     (x', s2) = connection_query s1 cmd' \<Longrightarrow> length (replies s2) < length (replies s)"
  using connection_query_replies[of s cmd r s1] connection_query_replies_le[of s1 cmd' x' s2]
  by simp

lemma connection_write_replies:
  "connection_write s cmd = (r, s') \<Longrightarrow> replies s' = replies s"
  by (auto simp: connection_write_def)

subsection \<open>write, query and the error-status check\<close>

text \<open>
  \<^verbatim>\<open>VNA.write\<close> is \<open>write_cmd\<close> here. It and \<open>get_error_status\<close> call each other:
  \<open>write_cmd\<close> checks the status after each command, and the check clears the status
  through \<open>write_cmd\<close>. In the check, the body of the \<^verbatim>\<open>try\<close> is the message query
  and its log record; the \<^verbatim>\<open>finally\<close> clause runs whether or not that body raised, an
  exception of its own takes over, and otherwise an exception of the body goes on once
  the clause is done. Every call of the check uses up an answer before it calls
  \<open>write_cmd\<close>, which is why the recursion ends.
\<close>

function write_cmd :: "vna \<Rightarrow> string \<Rightarrow> (error + nat) \<times> vna"
  and get_error_status :: "vna \<Rightarrow> (error + bool) \<times> vna" where
  "write_cmd s cmd =
     (case connection_write (log_record DEBUG (''[write]: '' @ cmd) s) cmd of
        (result, s1) \<Rightarrow>
          (case get_error_status s1 of
             (Inl e, s2) \<Rightarrow> (Inl e, s2)
           | (Inr True, s2) \<Rightarrow> (Inl (RuntimeError (''command failed: '' @ cmd)), s2)
           | (Inr False, s2) \<Rightarrow> (Inr result, s2)))"
| "get_error_status s =
     (case connection_query s ''*STB?'' of
        (Inl e, s1) \<Rightarrow> (Inl e, s1)
      | (Inr stb, s1) \<Rightarrow>
          (case py_int stb of
             None \<Rightarrow> (Inl (IntValueError stb), s1)
           | Some n \<Rightarrow>
               if n \<noteq> 0 then
                 (case connection_query s1 ''SYSTem:ERRor:NEXT?'' of
                    (Inl e, s2) \<Rightarrow>
                      (case write_cmd s2 ''*CLS'' of
                         (Inl e', s3) \<Rightarrow> (Inl e', s3)
                       | (Inr _, s3) \<Rightarrow> (Inl e, s3))
                  | (Inr error_msgs, s2) \<Rightarrow>
                      (case write_cmd (log_record ERROR (''command failure: '' @ error_msgs) s2) ''*CLS'' of
                         (Inl e', s3) \<Rightarrow> (Inl e', s3)
                       | (Inr _, s3) \<Rightarrow> (Inr True, s3)))
               else (Inr False, s1)))"
  by pat_completeness auto

termination
  apply (relation "measure (\<lambda>x. case x of
    Inl (s, cmd) \<Rightarrow> 2 * length (replies s) + 1
  | Inr s \<Rightarrow> 2 * length (replies s))")
     apply simp
    apply (auto simp: connection_write_def log_record_def)[1]
   apply (frule (2) connection_query_twice, simp)
  apply (frule (2) connection_query_twice, simp add: log_record_def)
  done

text \<open>\<^verbatim>\<open>query\<close>: the line is logged and sent, and the answer returned as it came.\<close>

definition query :: "vna \<Rightarrow> string \<Rightarrow> (error + string) \<times> vna" where
  "query s cmd = connection_query (log_record DEBUG (''[query]: '' @ cmd) s) cmd"

subsection \<open>The array library\<close>

text \<open>
  The driver computes on NumPy arrays of floating-point numbers. Nothing of NumPy is in
  the repository, so its operations are parameters of the model: \<open>'f\<close> is the type of a
  float, \<open>'c\<close> of a complex number, and each field is one operation of the library on one
  element (on the whole text, for the parser), returning its value or raising.
  \<open>np_fromstring\<close> is \<^verbatim>\<open>np.fromstring(val, sep=',')\<close>, \<open>np_mul_j\<close> is \<^verbatim>\<open>1j*y\<close>,
  \<open>np_add\<close> is \<^verbatim>\<open>x + z\<close>, \<open>np_abs\<close> is \<^verbatim>\<open>abs(z)\<close>, \<open>np_log10\<close> is
  \<^verbatim>\<open>np.log10(x)\<close>, \<open>np_mul_20\<close> is \<^verbatim>\<open>20.*x\<close>, \<open>np_square\<close> is \<^verbatim>\<open>x**2\<close>,
  \<open>np_angle\<close> is \<^verbatim>\<open>np.angle(z)\<close> and \<open>np_one\<close> is an element of
  \<^verbatim>\<open>np.ones_like\<close>.
\<close>

record ('f, 'c) numpy =
  np_fromstring :: "string \<Rightarrow> np_exc + 'f list"
  np_mul_j :: "'f \<Rightarrow> np_exc + 'c"
  np_add :: "'f \<Rightarrow> 'c \<Rightarrow> np_exc + 'c"
  np_abs :: "'c \<Rightarrow> np_exc + 'f"
  np_log10 :: "'f \<Rightarrow> np_exc + 'f"
  np_mul_20 :: "'f \<Rightarrow> np_exc + 'f"
  np_square :: "'f \<Rightarrow> np_exc + 'f"
  np_angle :: "'c \<Rightarrow> np_exc + 'f"
  np_one :: "'f"

text \<open>An operation applied to every element of an array; the first raise ends it.\<close>

fun elementwise :: "('a \<Rightarrow> np_exc + 'b) \<Rightarrow> 'a list \<Rightarrow> np_exc + 'b list" where
  "elementwise f [] = Inr []"
| "elementwise f (x # xs) =
     (case f x of
        Inl e \<Rightarrow> Inl e
      | Inr y \<Rightarrow> (case elementwise f xs of Inl e \<Rightarrow> Inl e | Inr ys \<Rightarrow> Inr (y # ys)))"

definition and_then :: "'e + 'a \<Rightarrow> ('a \<Rightarrow> 'e + 'b) \<Rightarrow> 'e + 'b" where
  "and_then m f = (case m of Inl e \<Rightarrow> Inl e | Inr x \<Rightarrow> f x)"

text \<open>\<^verbatim>\<open>real + 1j*imag\<close>\<close>

definition real_plus_j_imag ::
  "('f, 'c) numpy \<Rightarrow> 'f list \<Rightarrow> 'f list \<Rightarrow> np_exc + 'c list" where
  "real_plus_j_imag np real imag =
     and_then (elementwise (np_mul_j np) imag)
       (\<lambda>j_imag. elementwise (\<lambda>(x, z). np_add np x z) (zip real j_imag))"

text \<open>\<^verbatim>\<open>20.*np.log10(abs(real + 1j*imag)), np.angle(real + 1j*imag)\<close>\<close>

definition db_phase ::
  "('f, 'c) numpy \<Rightarrow> 'f list \<Rightarrow> 'f list \<Rightarrow> np_exc + ('f list \<times> 'f list)" where
  "db_phase np real imag =
     and_then (real_plus_j_imag np real imag) (\<lambda>z.
     and_then (elementwise (np_abs np) z) (\<lambda>a.
     and_then (elementwise (np_log10 np) a) (\<lambda>l.
     and_then (elementwise (np_mul_20 np) l) (\<lambda>db.
     and_then (real_plus_j_imag np real imag) (\<lambda>z'.
     and_then (elementwise (np_angle np) z') (\<lambda>phase.
     Inr (db, phase)))))))"

text \<open>\<^verbatim>\<open>abs(real + 1j*imag)**2, np.angle(real + 1j*imag)\<close>\<close>

definition amp_phase ::
  "('f, 'c) numpy \<Rightarrow> 'f list \<Rightarrow> 'f list \<Rightarrow> np_exc + ('f list \<times> 'f list)" where
  "amp_phase np real imag =
     and_then (real_plus_j_imag np real imag) (\<lambda>z.
     and_then (elementwise (np_abs np) z) (\<lambda>a.
     and_then (elementwise (np_square np) a) (\<lambda>amp.
     and_then (real_plus_j_imag np real imag) (\<lambda>z'.
     and_then (elementwise (np_angle np) z') (\<lambda>phase.
     Inr (amp, phase))))))"

definition ones_like :: "('f, 'c) numpy \<Rightarrow> 'f list \<Rightarrow> 'f list" where
  "ones_like np a = replicate (length a) (np_one np)"

text \<open>
  \<^verbatim>\<open>np.reshape(val, (-1, 2))\<close>: the flat array cut into rows of two, which needs an
  even number of values (none is even). \<^verbatim>\<open>np.transpose\<close> turns the rows of two into
  two rows, which the assignment unpacks into \<open>real\<close> and \<open>imag\<close>.
\<close>

fun rows_of_2 :: "'f list \<Rightarrow> ('f \<times> 'f) list" where
  "rows_of_2 (x # y # rest) = (x, y) # rows_of_2 rest"
| "rows_of_2 _ = []"

definition reshape_2 :: "'f list \<Rightarrow> error + ('f \<times> 'f) list" where
  "reshape_2 val =
     (if even (length val) then Inr (rows_of_2 val) else Inl (ReshapeValueError (length val)))"

definition transpose_2 :: "('f \<times> 'f) list \<Rightarrow> 'f list \<times> 'f list" where
  "transpose_2 rows = (map fst rows, map snd rows)"

subsection \<open>\<^verbatim>\<open>str.lower\<close>\<close>

definition lower_char :: "char \<Rightarrow> char" where
  "lower_char c =
     (let n = (of_char c :: nat) in if 65 \<le> n \<and> n \<le> 90 then char_of (n + 32) else c)"

definition lower :: "string \<Rightarrow> string" where
  "lower s = map lower_char s"

subsection \<open>Trace data\<close>

text \<open>
  What \<^verbatim>\<open>_get_data\<close> returns: a tuple of two arrays, or the one array of ones of the
  \<^verbatim>\<open>except RuntimeError\<close> clauses.
\<close>

datatype 'f trace_data = Two "'f list" "'f list" | One "'f list"

definition data_format_message :: string where
  "data_format_message = ''data-format must be: 'real-imag', 'db-phase', 'amp-phase'.''"

text \<open>
  \<^verbatim>\<open>VNA._get_data\<close> is \<open>get_data\<close> here. Its command line is
  \<^verbatim>\<open>'CALC:PARameter:SEL "%s"' % (trace)\<close>.
\<close>

definition select_command :: "string \<Rightarrow> string" where
  "select_command trace = ''CALC:PARameter:SEL '' @ [CHR 0x22] @ trace @ [CHR 0x22]"

definition get_data ::
  "('f, 'c) numpy \<Rightarrow> vna \<Rightarrow> string \<Rightarrow> string \<Rightarrow> (error + 'f trace_data) \<times> vna" where
  "get_data np s trace data_format =
     (case write_cmd s (select_command trace) of
        (Inl e, s1) \<Rightarrow> (Inl e, s1)
      | (Inr _, s1) \<Rightarrow>
          (case query s1 ''CALCulate:DATa? Sdata'' of
             (Inl e, s2) \<Rightarrow> (Inl e, s2)
           | (Inr val, s2) \<Rightarrow>
               (case np_fromstring np val of
                  Inl x \<Rightarrow> (Inl (NumpyException x), s2)
                | Inr val' \<Rightarrow>
                    (case reshape_2 val' of
                       Inl e \<Rightarrow> (Inl e, s2)
                     | Inr rows \<Rightarrow>
                         (case transpose_2 rows of
                            (real, imag) \<Rightarrow>
                              if lower data_format = ''real-imag'' then
                                (Inr (Two real imag), s2)
                              else if lower data_format = ''db-phase'' then
                                (case db_phase np real imag of
                                   Inr (db, phase) \<Rightarrow> (Inr (Two db phase), s2)
                                 | Inl RuntimeErrorInstance \<Rightarrow>
                                     (Inr (One (ones_like np real)),
                                      log_record ERROR ''division by zero error - Phase'' s2)
                                 | Inl OtherException \<Rightarrow>
                                     (Inl (NumpyException OtherException), s2))
                              else if lower data_format = ''amp-phase'' then
                                (case amp_phase np real imag of
                                   Inr (amp, phase) \<Rightarrow> (Inr (Two amp phase), s2)
                                 | Inl RuntimeErrorInstance \<Rightarrow>
                                     (Inr (One (ones_like np real)),
                                      log_record ERROR ''division by zero error - Amplitude'' s2)
                                 | Inl OtherException \<Rightarrow>
                                     (Inl (NumpyException OtherException), s2))
                              else (Inl (ValueError data_format_message), s2))))))"

text \<open>
  \<^verbatim>\<open>get_traces\<close> is declared \<^verbatim>\<open>traces: Tuple[str]\<close> under \<^verbatim>\<open>@validate_call\<close>.
  \<^verbatim>\<open>Tuple[str]\<close> is the type of tuples of exactly one string (a tuple of any number of
  strings is \<^verbatim>\<open>Tuple[str, ...]\<close>), and the decorator rejects any other argument before
  the body runs.
\<close>

definition is_Tuple_str :: "string list \<Rightarrow> bool" where
  "is_Tuple_str traces = (length traces = 1)"

text \<open>The \<^verbatim>\<open>for\<close> loop, with the list \<open>temp\<close> it appends to.\<close>

fun for_trace ::
  "('f, 'c) numpy \<Rightarrow> string \<Rightarrow> vna \<Rightarrow> string list \<Rightarrow> 'f trace_data list \<Rightarrow>
     (error + 'f trace_data list) \<times> vna" where
  "for_trace np data_format s [] temp = (Inr temp, s)"
| "for_trace np data_format s (trace # traces) temp =
     (case get_data np s trace data_format of
        (Inl e, s') \<Rightarrow> (Inl e, s')
      | (Inr d, s') \<Rightarrow> for_trace np data_format s' traces (temp @ [d]))"

definition get_traces ::
  "('f, 'c) numpy \<Rightarrow> vna \<Rightarrow> string list \<Rightarrow> string \<Rightarrow> (error + 'f trace_data list) \<times> vna" where
  "get_traces np s traces data_format =
     (if is_Tuple_str traces then for_trace np data_format s traces []
      else (Inl ValidationError, s))"

subsection \<open>A symbolic instance of the array library\<close>

text \<open>
  To run the driver on a concrete conversation the operations of the library need
  values. This instance computes no number: a float is an integer literal of the payload
  or the expression the driver built over such literals, so that a result shows which
  operations were applied to which values. Its parser reads comma-separated integer
  literals, and none of its operations raises.
\<close>

datatype fl = Num int | Abs cx | Log10 fl | Times20 fl | Squared fl | Angle cx | Unity
  and cx = TimesJ fl | Plus fl cx

fun fields :: "string \<Rightarrow> string list" where
  "fields [] = [[]]"
| "fields (c # cs) =
     (if c = CHR '','' then [] # fields cs
      else (case fields cs of [] \<Rightarrow> [[c]] | f # fs \<Rightarrow> (c # f) # fs))"

definition symbolic_fromstring :: "string \<Rightarrow> np_exc + fl list" where
  "symbolic_fromstring s =
     (if strip s = [] then Inr []
      else (case those (map py_int (fields s)) of
              None \<Rightarrow> Inl OtherException
            | Some ns \<Rightarrow> Inr (map Num ns)))"

definition symbolic :: "(fl, cx) numpy" where
  "symbolic =
     \<lparr>np_fromstring = symbolic_fromstring,
      np_mul_j = (\<lambda>y. Inr (TimesJ y)),
      np_add = (\<lambda>x z. Inr (Plus x z)),
      np_abs = (\<lambda>z. Inr (Abs z)),
      np_log10 = (\<lambda>x. Inr (Log10 x)),
      np_mul_20 = (\<lambda>x. Inr (Times20 x)),
      np_square = (\<lambda>x. Inr (Squared x)),
      np_angle = (\<lambda>z. Inr (Angle z)),
      np_one = Unity\<rparr>"

text \<open>A session at its start: the script of answers, nothing sent, nothing logged.\<close>

definition session :: "reply list \<Rightarrow> vna" where
  "session rs = \<lparr>replies = rs, wire = [], logged = [], write_termination = [CHR 0x0A]\<rparr>"

subsection \<open>Notions the properties are stated with\<close>

text \<open>The three data formats of the docstring of \<^verbatim>\<open>_get_data\<close>.\<close>

definition data_formats :: "string set" where
  "data_formats = {''real-imag'', ''db-phase'', ''amp-phase''}"

text \<open>
  The session once a trace has been selected, the status read and the data queried,
  with \<open>rest\<close> the answers still to come: two answers are used up, three lines have
  gone out and two debug records are logged.
\<close>

definition fetched :: "vna \<Rightarrow> string \<Rightarrow> reply list \<Rightarrow> vna" where
  "fetched s trace rest =
     s\<lparr>replies := rest,
       wire := wire s @ [Wrote (select_command trace), Queried ''*STB?'',
                         Queried ''CALCulate:DATa? Sdata''],
       logged := logged s @ [(DEBUG, ''[write]: '' @ select_command trace),
                             (DEBUG, ''[query]: CALCulate:DATa? Sdata'')]\<rparr>"

text \<open>
  NumPy as it is set up by default: array arithmetic on floats signals a division by
  zero or an invalid value with a warning and an infinity or a NaN in the result, and
  raises nothing.
\<close>

definition never_raises :: "('f, 'c) numpy \<Rightarrow> bool" where
  "never_raises np \<longleftrightarrow>
     (\<forall>y. \<not> isl (np_mul_j np y)) \<and> (\<forall>x z. \<not> isl (np_add np x z)) \<and>
     (\<forall>z. \<not> isl (np_abs np z)) \<and> (\<forall>x. \<not> isl (np_log10 np x)) \<and>
     (\<forall>x. \<not> isl (np_mul_20 np x)) \<and> (\<forall>x. \<not> isl (np_square np x)) \<and>
     (\<forall>z. \<not> isl (np_angle np z))"

section \<open>Properties\<close>

subsection \<open>What \<^verbatim>\<open>int\<close> reads\<close>

text \<open>
  A separator character beside the digits is no whitespace for \<^verbatim>\<open>int\<close>, a vertical tab
  and a form feed are; and no literal of more than 4300 digits is read.
\<close>

lemma py_int_separators:
  "py_int [CHR 0x1C, CHR ''0''] = None"
  "py_int [CHR ''0'', CHR 0x1F] = None"
  "py_int [CHR 0x0B, CHR ''7'', CHR 0x0C] = Some 7"
  by code_simp+

lemma digits_limit: "max_str_digits < length (filter is_digit s) \<Longrightarrow> digits s = None"
  by (auto simp: digits_def split: list.splits option.splits)

lemma filter_digit_dropWhile:
  "filter is_digit (dropWhile is_space s) = filter is_digit s"
  by (induction s) (auto simp: is_digit_def is_space_def Let_def)

lemma filter_digit_strip: "filter is_digit (strip s) = filter is_digit s"
proof -
  have "filter is_digit (rev (dropWhile is_space (rev (dropWhile is_space s)))) =
      rev (filter is_digit (dropWhile is_space (rev (dropWhile is_space s))))"
    by (simp add: rev_filter)
  also have "\<dots> = filter is_digit (dropWhile is_space s)"
    by (simp add: filter_digit_dropWhile rev_filter[symmetric])
  finally show ?thesis
    by (simp add: strip_def filter_digit_dropWhile)
qed

lemma py_int_limit: "max_str_digits < length (filter is_digit s) \<Longrightarrow> py_int s = None"
proof -
  assume a: "max_str_digits < length (filter is_digit s)"
  then have b: "max_str_digits < length (filter is_digit (strip s))"
    by (simp add: filter_digit_strip)
  show ?thesis
  proof (cases "strip s")
    case Nil
    then show ?thesis by (simp add: py_int_def)
  next
    case (Cons c cs)
    have "c = CHR ''-'' \<or> c = CHR ''+'' \<Longrightarrow> filter is_digit cs = filter is_digit (strip s)"
      using Cons by (auto simp: is_digit_def)
    then show ?thesis
      using b Cons digits_limit[of cs] digits_limit[of "c # cs"]
      by (auto simp: py_int_def)
  qed
qed

subsection \<open>The status check after a command\<close>

text \<open>
  The two functions are unfolded one call at a time, along the answers of the instrument.
\<close>

declare write_cmd.simps [simp del] get_error_status.simps [simp del]

lemma get_error_status_zero:
  assumes "replies s = Reply stb # rest" and "py_int stb = Some 0"
  shows "get_error_status s = (Inr False, s\<lparr>replies := rest, wire := wire s @ [Queried ''*STB?'']\<rparr>)"
  using assms by (subst get_error_status.simps) (simp add: connection_query_def)

lemma write_zero:
  assumes "replies s = Reply stb # rest" and "py_int stb = Some 0"
  shows "write_cmd s cmd =
    (Inr (length cmd + length (write_termination s)),
     s\<lparr>replies := rest, wire := wire s @ [Wrote cmd, Queried ''*STB?''],
       logged := logged s @ [(DEBUG, ''[write]: '' @ cmd)]\<rparr>)"
  by (subst write_cmd.simps)
    (simp add: connection_write_def log_record_def
      get_error_status_zero[where stb = stb and rest = rest] assms)

lemma get_error_status_cleared:
  assumes "replies s = Reply stb # Reply msg # Reply stb' # rest"
    and "py_int stb = Some n" and "n \<noteq> 0" and "py_int stb' = Some 0"
  shows "get_error_status s =
    (Inr True,
     s\<lparr>replies := rest,
       wire := wire s @ [Queried ''*STB?'', Queried ''SYSTem:ERRor:NEXT?'', Wrote ''*CLS'',
                         Queried ''*STB?''],
       logged := logged s @ [(ERROR, ''command failure: '' @ msg), (DEBUG, ''[write]: *CLS'')]\<rparr>)"
  by (subst get_error_status.simps)
    (simp add: connection_query_def log_record_def
      write_zero[where stb = stb' and rest = rest] assms)

lemma write_cleared:
  assumes "replies s = Reply stb # Reply msg # Reply stb' # rest"
    and "py_int stb = Some n" and "n \<noteq> 0" and "py_int stb' = Some 0"
  shows "write_cmd s cmd =
    (Inl (RuntimeError (''command failed: '' @ cmd)),
     s\<lparr>replies := rest,
       wire := wire s @ [Wrote cmd, Queried ''*STB?'', Queried ''SYSTem:ERRor:NEXT?'',
                         Wrote ''*CLS'', Queried ''*STB?''],
       logged := logged s @ [(DEBUG, ''[write]: '' @ cmd), (ERROR, ''command failure: '' @ msg),
                             (DEBUG, ''[write]: *CLS'')]\<rparr>)"
  by (subst write_cmd.simps)
    (simp add: connection_write_def log_record_def
      get_error_status_cleared[where stb = stb and msg = msg and stb' = stb' and rest = rest and n = n] assms)

lemma wire_grows:
  "prefix (wire s @ [Wrote cmd]) (wire (snd (write_cmd s cmd)))"
  "prefix (wire s0) (wire (snd (get_error_status s0)))"
proof (induction s cmd and s0 rule: write_cmd_get_error_status.induct)
  case (1 s cmd)
  obtain res s1 where cw: "connection_write (log_record DEBUG (''[write]: '' @ cmd) s) cmd = (res, s1)"
    by force
  have w1: "wire s1 = wire s @ [Wrote cmd]"
    using cw by (auto simp: connection_write_def log_record_def)
  have "prefix (wire s1) (wire (snd (get_error_status s1)))"
    using 1[OF cw[symmetric]] .
  moreover have "snd (write_cmd s cmd) = snd (get_error_status s1)"
    by (subst write_cmd.simps, subst cw) (auto split: prod.splits sum.splits bool.splits)
  ultimately show ?case
    using w1 by simp
next
  case (2 s)
  obtain x s1 where q1: "connection_query s ''*STB?'' = (x, s1)"
    by force
  have w1: "wire s1 = wire s @ [Queried ''*STB?'']"
    using q1 by (auto simp: connection_query_def split: list.splits reply.splits)
  show ?case
  proof (cases x)
    case (Inl e)
    then show ?thesis
      by (subst get_error_status.simps) (simp add: q1 w1)
  next
    case (Inr stb)
    show ?thesis
    proof (cases "py_int stb")
      case None
      then show ?thesis
        by (subst get_error_status.simps) (simp add: q1 w1 Inr)
    next
      case (Some n)
      show ?thesis
      proof (cases "n = 0")
        case True
        then show ?thesis
          by (subst get_error_status.simps) (simp add: q1 w1 Inr Some)
      next
        case False
        obtain xa s2 where q2: "connection_query s1 ''SYSTem:ERRor:NEXT?'' = (xa, s2)"
          by force
        have w2: "wire s2 = wire s @ [Queried ''*STB?'', Queried ''SYSTem:ERRor:NEXT?'']"
          using q2 w1 by (auto simp: connection_query_def split: list.splits reply.splits)
        show ?thesis
        proof (cases xa)
          case (Inl a)
          have "prefix (wire s2 @ [Wrote ''*CLS'']) (wire (snd (write_cmd s2 ''*CLS'')))"
            using "2.IH"(1)[OF q1[symmetric] Inr Some False q2[symmetric] Inl] .
          then have "prefix (wire s) (wire (snd (write_cmd s2 ''*CLS'')))"
            unfolding w2 by (auto dest: append_prefixD)
          moreover have "snd (get_error_status s) = snd (write_cmd s2 ''*CLS'')"
            by (subst get_error_status.simps)
              (simp add: q1 q2 Inr Some False Inl split: prod.splits sum.splits)
          ultimately show ?thesis by simp
        next
          case (Inr msg)
          let ?s3 = "log_record ERROR (''command failure: '' @ msg) s2"
          have "prefix (wire ?s3 @ [Wrote ''*CLS'']) (wire (snd (write_cmd ?s3 ''*CLS'')))"
            using "2.IH"(2)[OF q1[symmetric] \<open>x = Inr stb\<close> Some False q2[symmetric] Inr] .
          then have "prefix (wire s) (wire (snd (write_cmd ?s3 ''*CLS'')))"
            using w2 by (auto simp: log_record_def dest: append_prefixD)
          moreover have "snd (get_error_status s) = snd (write_cmd ?s3 ''*CLS'')"
            by (subst get_error_status.simps)
              (simp add: q1 q2 \<open>x = Inr stb\<close> Some False Inr split: prod.splits sum.splits)
          ultimately show ?thesis by simp
        qed
      qed
    qed
  qed
qed

lemma get_error_status_sends_cls:
  assumes "replies s = Reply stb # rest" and "py_int stb = Some n" and "n \<noteq> 0"
  shows "prefix (wire s @ [Queried ''*STB?'', Queried ''SYSTem:ERRor:NEXT?'', Wrote ''*CLS''])
           (wire (snd (get_error_status s)))"
proof -
  let ?s1 = "s\<lparr>replies := rest, wire := wire s @ [Queried ''*STB?'']\<rparr>"
  have q1: "connection_query s ''*STB?'' = (Inr stb, ?s1)"
    using assms(1) by (simp add: connection_query_def)
  obtain xa s2 where q2: "connection_query ?s1 ''SYSTem:ERRor:NEXT?'' = (xa, s2)"
    by force
  have w2: "wire s2 = wire s @ [Queried ''*STB?'', Queried ''SYSTem:ERRor:NEXT?'']"
    using q2 by (auto simp: connection_query_def split: list.splits reply.splits)
  show ?thesis
  proof (cases xa)
    case (Inl a)
    have "snd (get_error_status s) = snd (write_cmd s2 ''*CLS'')"
      by (subst get_error_status.simps)
        (simp add: q1 q2 assms Inl split: prod.splits sum.splits)
    then show ?thesis
      using wire_grows(1)[of s2 "''*CLS''"] w2 by simp
  next
    case (Inr msg)
    let ?s3 = "log_record ERROR (''command failure: '' @ msg) s2"
    have "snd (get_error_status s) = snd (write_cmd ?s3 ''*CLS'')"
      by (subst get_error_status.simps)
        (simp add: q1 q2 assms Inr split: prod.splits sum.splits)
    then show ?thesis
      using wire_grows(1)[of ?s3 "''*CLS''"] w2 by (simp add: log_record_def)
  qed
qed

text \<open>The logger only ever gains records, and a command logs itself first.\<close>

lemma logged_grows:
  "prefix (logged s @ [(DEBUG, ''[write]: '' @ cmd)]) (logged (snd (write_cmd s cmd)))"
  "prefix (logged s0) (logged (snd (get_error_status s0)))"
proof (induction s cmd and s0 rule: write_cmd_get_error_status.induct)
  case (1 s cmd)
  obtain res s1 where cw: "connection_write (log_record DEBUG (''[write]: '' @ cmd) s) cmd = (res, s1)"
    by force
  have l1: "logged s1 = logged s @ [(DEBUG, ''[write]: '' @ cmd)]"
    using cw by (auto simp: connection_write_def log_record_def)
  have "prefix (logged s1) (logged (snd (get_error_status s1)))"
    using 1[OF cw[symmetric]] .
  moreover have "snd (write_cmd s cmd) = snd (get_error_status s1)"
    by (subst write_cmd.simps, subst cw) (auto split: prod.splits sum.splits bool.splits)
  ultimately show ?case
    using l1 by simp
next
  case (2 s)
  obtain x s1 where q1: "connection_query s ''*STB?'' = (x, s1)"
    by force
  have l1: "logged s1 = logged s"
    using q1 by (auto simp: connection_query_def split: list.splits reply.splits)
  show ?case
  proof (cases x)
    case (Inl e)
    then show ?thesis
      by (subst get_error_status.simps) (simp add: q1 l1)
  next
    case (Inr stb)
    show ?thesis
    proof (cases "py_int stb")
      case None
      then show ?thesis
        by (subst get_error_status.simps) (simp add: q1 l1 Inr)
    next
      case (Some n)
      show ?thesis
      proof (cases "n = 0")
        case True
        then show ?thesis
          by (subst get_error_status.simps) (simp add: q1 l1 Inr Some)
      next
        case False
        obtain xa s2 where q2: "connection_query s1 ''SYSTem:ERRor:NEXT?'' = (xa, s2)"
          by force
        have l2: "logged s2 = logged s"
          using q2 l1 by (auto simp: connection_query_def split: list.splits reply.splits)
        show ?thesis
        proof (cases xa)
          case (Inl a)
          have "prefix (logged s2 @ [(DEBUG, ''[write]: '' @ ''*CLS'')])
              (logged (snd (write_cmd s2 ''*CLS'')))"
            using "2.IH"(1)[OF q1[symmetric] Inr Some False q2[symmetric] Inl] .
          then have "prefix (logged s) (logged (snd (write_cmd s2 ''*CLS'')))"
            unfolding l2 by (rule append_prefixD)
          moreover have "snd (get_error_status s) = snd (write_cmd s2 ''*CLS'')"
            by (subst get_error_status.simps)
              (simp add: q1 q2 Inr Some False Inl split: prod.splits sum.splits)
          ultimately show ?thesis by simp
        next
          case (Inr msg)
          let ?s3 = "log_record ERROR (''command failure: '' @ msg) s2"
          have "prefix (logged ?s3 @ [(DEBUG, ''[write]: '' @ ''*CLS'')])
              (logged (snd (write_cmd ?s3 ''*CLS'')))"
            using "2.IH"(2)[OF q1[symmetric] \<open>x = Inr stb\<close> Some False q2[symmetric] Inr] .
          then have "prefix (logged ?s3) (logged (snd (write_cmd ?s3 ''*CLS'')))"
            by (rule append_prefixD)
          then have "prefix (logged s) (logged (snd (write_cmd ?s3 ''*CLS'')))"
            using l2 by (auto simp: log_record_def dest: append_prefixD)
          moreover have "snd (get_error_status s) = snd (write_cmd ?s3 ''*CLS'')"
            by (subst get_error_status.simps)
              (simp add: q1 q2 \<open>x = Inr stb\<close> Some False Inr split: prod.splits sum.splits)
          ultimately show ?thesis by simp
        qed
      qed
    qed
  qed
qed

lemma get_error_status_logs:
  assumes "replies s = Reply stb # Reply msg # rest" and "py_int stb = Some n" and "n \<noteq> 0"
  shows "prefix (logged s @ [(ERROR, ''command failure: '' @ msg), (DEBUG, ''[write]: *CLS'')])
           (logged (snd (get_error_status s)))"
proof -
  let ?s1 = "s\<lparr>replies := Reply msg # rest, wire := wire s @ [Queried ''*STB?'']\<rparr>"
  let ?s2 = "?s1\<lparr>replies := rest, wire := wire ?s1 @ [Queried ''SYSTem:ERRor:NEXT?'']\<rparr>"
  let ?s3 = "log_record ERROR (''command failure: '' @ msg) ?s2"
  have q1: "connection_query s ''*STB?'' = (Inr stb, ?s1)"
    using assms(1) by (simp add: connection_query_def)
  have q2: "connection_query ?s1 ''SYSTem:ERRor:NEXT?'' = (Inr msg, ?s2)"
    by (simp add: connection_query_def)
  have "snd (get_error_status s) = snd (write_cmd ?s3 ''*CLS'')"
    by (subst get_error_status.simps, subst q1, simp only: prod.case sum.case, subst q2)
      (simp add: assms split: prod.splits sum.splits)
  then show ?thesis
    using logged_grows(1)[of ?s3 "''*CLS''"] by (simp add: log_record_def)
qed

lemma py_int_0: "py_int ''0'' = Some 0"
  by code_simp

lemma py_int_16: "py_int ''16'' = Some 16"
  by code_simp

text \<open>
  C3, as the code has it. \<open>write_cmd\<close> sends the command and then reads the status byte.
  When it reads 0, it returns what the transport returned, having sent nothing more.
  When it is not 0, the check asks for the pending message and clears the status through
  \<open>write_cmd\<close> itself, which reads the status byte a second time: when the message query is
  answered and that second reading is 0, it raises the RuntimeError whose message
  carries the command, and after the command \<^verbatim>\<open>*CLS\<close> has gone out exactly once.
\<close>

theorem write_checks_status:
  assumes "replies s = Reply stb # rest" and "py_int stb = Some n"
  shows "(n = 0 \<longrightarrow>
            write_cmd s cmd =
              (Inr (length cmd + length (write_termination s)),
               s\<lparr>replies := rest, wire := wire s @ [Wrote cmd, Queried ''*STB?''],
                 logged := logged s @ [(DEBUG, ''[write]: '' @ cmd)]\<rparr>)) \<and>
         (n \<noteq> 0 \<longrightarrow>
            (\<forall>msg stb' rest'. rest = Reply msg # Reply stb' # rest' \<and> py_int stb' = Some 0 \<longrightarrow>
               write_cmd s cmd =
                 (Inl (RuntimeError (''command failed: '' @ cmd)),
                  s\<lparr>replies := rest',
                    wire := wire s @ [Wrote cmd, Queried ''*STB?'', Queried ''SYSTem:ERRor:NEXT?'',
                                      Wrote ''*CLS'', Queried ''*STB?''],
                    logged := logged s @ [(DEBUG, ''[write]: '' @ cmd),
                                          (ERROR, ''command failure: '' @ msg),
                                          (DEBUG, ''[write]: *CLS'')]\<rparr>) \<and>
               count_list (drop (Suc (length (wire s))) (wire (snd (write_cmd s cmd)))) (Wrote ''*CLS'') = 1))"
proof -
  have zero: "write_cmd s cmd =
      (Inr (length cmd + length (write_termination s)),
       s\<lparr>replies := rest, wire := wire s @ [Wrote cmd, Queried ''*STB?''],
         logged := logged s @ [(DEBUG, ''[write]: '' @ cmd)]\<rparr>)" if "n = 0"
    using assms that by (simp add: write_zero)
  have nonzero: "write_cmd s cmd =
      (Inl (RuntimeError (''command failed: '' @ cmd)),
       s\<lparr>replies := rest',
         wire := wire s @ [Wrote cmd, Queried ''*STB?'', Queried ''SYSTem:ERRor:NEXT?'',
                           Wrote ''*CLS'', Queried ''*STB?''],
         logged := logged s @ [(DEBUG, ''[write]: '' @ cmd),
                               (ERROR, ''command failure: '' @ msg),
                               (DEBUG, ''[write]: *CLS'')]\<rparr>)"
    if "n \<noteq> 0" and "rest = Reply msg # Reply stb' # rest'" and "py_int stb' = Some 0"
    for msg stb' rest'
    using assms that
    by (intro write_cleared[where stb = stb and stb' = stb' and n = n]) simp_all
  show ?thesis
    using zero by (auto simp: nonzero)
qed

text \<open>
  A reset acknowledged with status 0, and an unknown command answered with status 16, an
  error message and then status 0.
\<close>

theorem write_checks_status_witness:
  "write_cmd (session [Reply ''0'']) ''*RST'' =
     (Inr 5, \<lparr>replies = [], wire = [Wrote ''*RST'', Queried ''*STB?''],
              logged = [(DEBUG, ''[write]: *RST'')], write_termination = [CHR 0x0A]\<rparr>) \<and>
   write_cmd (session [Reply ''16'', Reply ''-113,Undefined header'', Reply ''0'']) ''FOO'' =
     (Inl (RuntimeError ''command failed: FOO''),
      \<lparr>replies = [],
        wire = [Wrote ''FOO'', Queried ''*STB?'', Queried ''SYSTem:ERRor:NEXT?'', Wrote ''*CLS'',
                Queried ''*STB?''],
        logged = [(DEBUG, ''[write]: FOO''), (ERROR, ''command failure: -113,Undefined header''),
                  (DEBUG, ''[write]: *CLS'')],
        write_termination = [CHR 0x0A]\<rparr>)"
  using write_checks_status[of "session [Reply ''0'']" "''0''" "[]" 0 "''*RST''"]
    write_checks_status[of "session [Reply ''16'', Reply ''-113,Undefined header'', Reply ''0'']"
      "''16''" "[Reply ''-113,Undefined header'', Reply ''0'']" 16 "''FOO''"]
    py_int_0 py_int_16
  by (simp add: session_def)

text \<open>
  C3 as the specification words it speaks of one reading of the status byte. When the
  byte is still set after the first \<^verbatim>\<open>*CLS\<close>, the nested call fails in its turn:
  the error that reaches the caller names \<^verbatim>\<open>*CLS\<close>, not the command, and
  \<^verbatim>\<open>*CLS\<close> has been sent twice.
\<close>

theorem write_status_nonzero_counterexample:
  "py_int ''16'' = Some 16 \<and>
   write_cmd (session [Reply ''16'', Reply ''e1'', Reply ''16'', Reply ''e2'', Reply ''0'']) ''FOO'' =
     (Inl (RuntimeError ''command failed: *CLS''),
      \<lparr>replies = [],
        wire = [Wrote ''FOO'', Queried ''*STB?'', Queried ''SYSTem:ERRor:NEXT?'', Wrote ''*CLS'',
                Queried ''*STB?'', Queried ''SYSTem:ERRor:NEXT?'', Wrote ''*CLS'', Queried ''*STB?''],
        logged = [(DEBUG, ''[write]: FOO''), (ERROR, ''command failure: e1''),
                  (DEBUG, ''[write]: *CLS''), (ERROR, ''command failure: e2''),
                  (DEBUG, ''[write]: *CLS'')],
        write_termination = [CHR 0x0A]\<rparr>)"
  by code_simp

text \<open>
  C4, as the code has it. The check queries \<^verbatim>\<open>*STB?\<close>. When the value is 0 it reports
  False and does nothing more. When it is not 0 it queries \<^verbatim>\<open>SYSTem:ERRor:NEXT?\<close> and
  then sends \<^verbatim>\<open>*CLS\<close>, whatever the message query did; the clearing goes through
  \<open>write_cmd\<close>, which reads the status byte again. When the message query is answered,
  the message is logged as an error before \<^verbatim>\<open>*CLS\<close> goes out; when moreover that second
  reading is 0, the check reports True.
\<close>

theorem get_error_status_reports:
  assumes "replies s = Reply stb # rest" and "py_int stb = Some n"
  shows "(n = 0 \<longrightarrow>
            get_error_status s =
              (Inr False, s\<lparr>replies := rest, wire := wire s @ [Queried ''*STB?'']\<rparr>)) \<and>
         (n \<noteq> 0 \<longrightarrow>
            prefix (wire s @ [Queried ''*STB?'', Queried ''SYSTem:ERRor:NEXT?'', Wrote ''*CLS''])
              (wire (snd (get_error_status s))) \<and>
            (\<forall>msg rest'. rest = Reply msg # rest' \<longrightarrow>
               prefix (logged s @ [(ERROR, ''command failure: '' @ msg), (DEBUG, ''[write]: *CLS'')])
                 (logged (snd (get_error_status s)))) \<and>
            (\<forall>msg stb' rest'. rest = Reply msg # Reply stb' # rest' \<and> py_int stb' = Some 0 \<longrightarrow>
               get_error_status s =
                 (Inr True,
                  s\<lparr>replies := rest',
                    wire := wire s @ [Queried ''*STB?'', Queried ''SYSTem:ERRor:NEXT?'',
                                      Wrote ''*CLS'', Queried ''*STB?''],
                    logged := logged s @ [(ERROR, ''command failure: '' @ msg),
                                          (DEBUG, ''[write]: *CLS'')]\<rparr>)))"
proof -
  have zero: "get_error_status s =
      (Inr False, s\<lparr>replies := rest, wire := wire s @ [Queried ''*STB?'']\<rparr>)" if "n = 0"
    using assms that by (simp add: get_error_status_zero)
  have cls: "prefix (wire s @ [Queried ''*STB?'', Queried ''SYSTem:ERRor:NEXT?'', Wrote ''*CLS''])
      (wire (snd (get_error_status s)))" if "n \<noteq> 0"
    using assms that by (rule get_error_status_sends_cls)
  have logs: "prefix (logged s @ [(ERROR, ''command failure: '' @ msg), (DEBUG, ''[write]: *CLS'')])
      (logged (snd (get_error_status s)))" if "n \<noteq> 0" and "rest = Reply msg # rest'"
    for msg rest'
    using assms that by (intro get_error_status_logs[where stb = stb and n = n]) simp_all
  have cleared: "get_error_status s =
      (Inr True,
       s\<lparr>replies := rest',
         wire := wire s @ [Queried ''*STB?'', Queried ''SYSTem:ERRor:NEXT?'',
                           Wrote ''*CLS'', Queried ''*STB?''],
         logged := logged s @ [(ERROR, ''command failure: '' @ msg),
                               (DEBUG, ''[write]: *CLS'')]\<rparr>)"
    if "n \<noteq> 0" and "rest = Reply msg # Reply stb' # rest'" and "py_int stb' = Some 0"
    for msg stb' rest'
    using assms that
    by (intro get_error_status_cleared[where stb = stb and stb' = stb' and n = n]) simp_all
  show ?thesis
    using zero cls logs by (auto simp: cleared)
qed

lemma py_int_4: "py_int ''4'' = Some 4"
  by code_simp

text \<open>
  A clean status, a status of 16 with a queued message that \<^verbatim>\<open>*CLS\<close> clears, and a
  status of 4 that \<^verbatim>\<open>*CLS\<close> does not clear: the message is logged and \<^verbatim>\<open>*CLS\<close>
  sent all the same.
\<close>

theorem get_error_status_reports_witness:
  "get_error_status (session [Reply ''0'', Reply ''1,0'']) =
     (Inr False,
      \<lparr>replies = [Reply ''1,0''], wire = [Queried ''*STB?''], logged = [],
        write_termination = [CHR 0x0A]\<rparr>) \<and>
   get_error_status (session [Reply ''16'', Reply ''-222,Data out of range'', Reply ''0'']) =
     (Inr True,
      \<lparr>replies = [],
        wire = [Queried ''*STB?'', Queried ''SYSTem:ERRor:NEXT?'', Wrote ''*CLS'', Queried ''*STB?''],
        logged = [(ERROR, ''command failure: -222,Data out of range''), (DEBUG, ''[write]: *CLS'')],
        write_termination = [CHR 0x0A]\<rparr>) \<and>
   prefix [Queried ''*STB?'', Queried ''SYSTem:ERRor:NEXT?'', Wrote ''*CLS'']
     (wire (snd (get_error_status (session [Reply ''4'', Reply ''e1'', Reply ''4''])))) \<and>
   prefix [(ERROR, ''command failure: e1''), (DEBUG, ''[write]: *CLS'')]
     (logged (snd (get_error_status (session [Reply ''4'', Reply ''e1'', Reply ''4'']))))"
  using get_error_status_reports[of "session [Reply ''0'', Reply ''1,0'']" "''0''" "[Reply ''1,0'']" 0]
    get_error_status_reports[of "session [Reply ''16'', Reply ''-222,Data out of range'', Reply ''0'']"
      "''16''" "[Reply ''-222,Data out of range'', Reply ''0'']" 16]
    get_error_status_reports[of "session [Reply ''4'', Reply ''e1'', Reply ''4'']"
      "''4''" "[Reply ''e1'', Reply ''4'']" 4]
    py_int_0 py_int_16 py_int_4
  by (simp add: session_def)

text \<open>
  C4 as the specification words it has the check report True whenever the first reading
  is not 0. With the byte still set after \<^verbatim>\<open>*CLS\<close> the check does not return: the
  nested command fails and its RuntimeError leaves the \<^verbatim>\<open>finally\<close> clause.
\<close>

theorem get_error_status_still_set_counterexample:
  "py_int ''4'' = Some 4 \<and>
   get_error_status (session [Reply ''4'', Reply ''e1'', Reply ''4'', Reply ''e2'', Reply ''0'']) =
     (Inl (RuntimeError ''command failed: *CLS''),
      \<lparr>replies = [],
        wire = [Queried ''*STB?'', Queried ''SYSTem:ERRor:NEXT?'', Wrote ''*CLS'',
                Queried ''*STB?'', Queried ''SYSTem:ERRor:NEXT?'', Wrote ''*CLS'', Queried ''*STB?''],
        logged = [(ERROR, ''command failure: e1''), (DEBUG, ''[write]: *CLS''),
                  (ERROR, ''command failure: e2''), (DEBUG, ''[write]: *CLS'')],
        write_termination = [CHR 0x0A]\<rparr>)"
  by code_simp

subsection \<open>Fetching a trace\<close>

text \<open>
  With the selection acknowledged by status 0 and the data query answered, the session
  is at \<open>fetched\<close> when the payload reaches the parser.
\<close>

lemma get_data_fetch:
  assumes "replies s = Reply stb # Reply payload # rest" and "py_int stb = Some 0"
  shows "write_cmd s (select_command trace) =
           (Inr (length (select_command trace) + length (write_termination s)),
            s\<lparr>replies := Reply payload # rest,
              wire := wire s @ [Wrote (select_command trace), Queried ''*STB?''],
              logged := logged s @ [(DEBUG, ''[write]: '' @ select_command trace)]\<rparr>)"
    and "query (s\<lparr>replies := Reply payload # rest,
              wire := wire s @ [Wrote (select_command trace), Queried ''*STB?''],
              logged := logged s @ [(DEBUG, ''[write]: '' @ select_command trace)]\<rparr>)
            ''CALCulate:DATa? Sdata'' = (Inr payload, fetched s trace rest)"
  using assms by (simp_all add: write_zero query_def connection_query_def log_record_def fetched_def)

text \<open>Every path through \<^verbatim>\<open>_get_data\<close> begins with the selection command.\<close>

lemma get_data_state:
  assumes "write_cmd s (select_command trace) = (Inr r, s1)"
    and "query s1 ''CALCulate:DATa? Sdata'' = (Inr payload, s2)"
  shows "wire (snd (get_data np s trace data_format)) = wire s2"
  unfolding get_data_def assms prod.case sum.case
  apply (cases "np_fromstring np payload")
   apply simp
  apply (simp only: sum.case)
  subgoal for val
    apply (cases "reshape_2 val")
     apply simp
    apply (simp only: sum.case)
    subgoal for rows
      apply (cases "transpose_2 rows")
      apply (simp only: prod.case)
      subgoal for re im
        apply (cases "db_phase np re im"; cases "amp_phase np re im")
        apply (auto simp: log_record_def split: np_exc.split)
        done
      done
    done
  done


lemma get_data_wire:
  "prefix (wire s @ [Wrote (select_command trace)]) (wire (snd (get_data np s trace data_format)))"
proof -
  obtain x s1 where w: "write_cmd s (select_command trace) = (x, s1)"
    by force
  have p1: "prefix (wire s @ [Wrote (select_command trace)]) (wire s1)"
    using wire_grows(1)[of s "select_command trace"] w by simp
  obtain y s2 where q: "query s1 ''CALCulate:DATa? Sdata'' = (y, s2)"
    by force
  have "wire s2 = wire s1 @ [Queried ''CALCulate:DATa? Sdata'']"
    using q by (auto simp: query_def connection_query_def log_record_def split: list.splits reply.splits)
  then have "prefix (wire s1) (wire s2)"
    by simp
  then have p2: "prefix (wire s @ [Wrote (select_command trace)]) (wire s2)"
    using p1 by (rule prefix_order.order_trans[rotated])
  show ?thesis
  proof (cases x)
    case (Inl e)
    have "snd (get_data np s trace data_format) = s1"
      unfolding get_data_def w Inl by simp
    then show ?thesis
      using p1 by simp
  next
    case (Inr r)
    note xr = this
    show ?thesis
    proof (cases y)
      case (Inl e)
      have "snd (get_data np s trace data_format) = s2"
        unfolding get_data_def w xr prod.case sum.case q Inl by simp
      then show ?thesis
        using p2 by simp
    next
      case (Inr payload)
      have "wire (snd (get_data np s trace data_format)) = wire s2"
        using w q by (intro get_data_state[of s trace r s1 payload s2]) (simp_all add: xr Inr)
      then show ?thesis
        using p2 by simp
    qed
  qed
qed

text \<open>
  C1, as the code has it. The format is looked at last: for any format the selection
  command goes out first, and for a format that is none of the three, once the selection
  is acknowledged with status 0, the data query is answered and the payload holds an even
  number of values, \<^verbatim>\<open>_get_data\<close> raises the ValueError of the data format, with the
  selection, the status query and the data query performed.
\<close>

theorem get_data_unrecognized_format:
  assumes "lower data_format \<notin> data_formats"
  shows "prefix (wire s @ [Wrote (select_command trace)])
           (wire (snd (get_data np s trace data_format))) \<and>
         (\<forall>stb payload rest val.
            replies s = Reply stb # Reply payload # rest \<and> py_int stb = Some 0 \<and>
            np_fromstring np payload = Inr val \<and> even (length val) \<longrightarrow>
            get_data np s trace data_format =
              (Inl (ValueError data_format_message), fetched s trace rest))"
proof -
  have "get_data np s trace data_format =
      (Inl (ValueError data_format_message), fetched s trace rest)"
    if "replies s = Reply stb # Reply payload # rest" and "py_int stb = Some 0"
      and "np_fromstring np payload = Inr val" and "even (length val)"
    for stb payload rest val
    using assms that(3,4) unfolding get_data_def
    by (subst get_data_fetch(1)[OF that(1,2)], simp only: prod.case sum.case,
        subst get_data_fetch(2)[OF that(1,2)])
      (simp add: reshape_2_def transpose_2_def data_formats_def)
  then show ?thesis
    using get_data_wire[of s trace np data_format] by blast
qed

text \<open>The format \<^verbatim>\<open>Bogus\<close> on a trace of two samples.\<close>

theorem get_data_unrecognized_format_witness:
  "lower ''Bogus'' \<notin> data_formats \<and>
   get_data symbolic (session [Reply ''0'', Reply ''1,0,0,1'']) ''Trc1'' ''Bogus'' =
     (Inl (ValueError data_format_message),
      \<lparr>replies = [],
        wire = [Wrote (select_command ''Trc1''), Queried ''*STB?'', Queried ''CALCulate:DATa? Sdata''],
        logged = [(DEBUG, ''[write]: '' @ select_command ''Trc1''),
                  (DEBUG, ''[query]: CALCulate:DATa? Sdata'')],
        write_termination = [CHR 0x0A]\<rparr>)"
proof -
  have f: "lower ''Bogus'' \<notin> data_formats"
    by (simp add: lower_def lower_char_def data_formats_def)
  have p: "np_fromstring symbolic ''1,0,0,1'' = Inr [Num 1, Num 0, Num 0, Num 1]"
    by code_simp
  show ?thesis
    using get_data_unrecognized_format[OF f, of "session [Reply ''0'', Reply ''1,0,0,1'']" "''Trc1''" symbolic]
      f p py_int_0
    by (simp add: session_def fetched_def)
qed

text \<open>
  C1 as the specification words it has no instrument I/O before the error. On a session
  with nothing sent yet, the format \<^verbatim>\<open>bogus\<close> raises after one command and two queries
  have gone out.
\<close>

theorem get_data_bogus_counterexample:
  "fst (get_data symbolic (session [Reply ''0'', Reply ''1,0,0,1'']) ''Trc1'' ''bogus'') =
     Inl (ValueError data_format_message) \<and>
   wire (session [Reply ''0'', Reply ''1,0,0,1'']) = [] \<and>
   wire (snd (get_data symbolic (session [Reply ''0'', Reply ''1,0,0,1'']) ''Trc1'' ''bogus'')) =
     [Wrote (select_command ''Trc1''), Queried ''*STB?'', Queried ''CALCulate:DATa? Sdata'']"
  by code_simp

subsection \<open>Arrays\<close>

text \<open>
  An elementwise operation keeps the length of its array, and an operation that never
  raises gives a result for every array.
\<close>

lemma elementwise_length: "elementwise f xs = Inr ys \<Longrightarrow> length ys = length xs"
  by (induction xs arbitrary: ys) (auto split: sum.splits)

lemma elementwise_total:
  assumes "\<And>x. \<not> isl (f x)"
  shows "\<exists>ys. elementwise f xs = Inr ys \<and> length ys = length xs"
proof (induction xs)
  case Nil
  show ?case by simp
next
  case (Cons x xs)
  from assms[of x] obtain y where "f x = Inr y"
    by (cases "f x") auto
  with Cons show ?case by auto
qed

lemma real_plus_j_imag_total:
  assumes "never_raises np" and "length real = length imag"
  shows "\<exists>z. real_plus_j_imag np real imag = Inr z \<and> length z = length real"
proof -
  obtain j where j: "elementwise (np_mul_j np) imag = Inr j" "length j = length imag"
    using elementwise_total[of "np_mul_j np" imag] assms(1) by (auto simp: never_raises_def)
  obtain z where z: "elementwise (\<lambda>(x, z). np_add np x z) (zip real j) = Inr z"
      "length z = length (zip real j)"
    using elementwise_total[of "\<lambda>(x, z). np_add np x z" "zip real j"] assms(1)
    by (auto simp: never_raises_def split: prod.splits)
  show ?thesis
    using j z assms(2) by (simp add: real_plus_j_imag_def and_then_def)
qed

lemma db_phase_total:
  assumes "never_raises np" and "length real = length imag"
  shows "\<exists>db phase. db_phase np real imag = Inr (db, phase) \<and>
           length db = length real \<and> length phase = length real"
proof -
  obtain z where z: "real_plus_j_imag np real imag = Inr z" "length z = length real"
    using real_plus_j_imag_total[OF assms] by auto
  obtain a where a: "elementwise (np_abs np) z = Inr a" "length a = length z"
    using elementwise_total[of "np_abs np" z] assms(1) by (auto simp: never_raises_def)
  obtain l where l: "elementwise (np_log10 np) a = Inr l" "length l = length a"
    using elementwise_total[of "np_log10 np" a] assms(1) by (auto simp: never_raises_def)
  obtain db where db: "elementwise (np_mul_20 np) l = Inr db" "length db = length l"
    using elementwise_total[of "np_mul_20 np" l] assms(1) by (auto simp: never_raises_def)
  obtain p where p: "elementwise (np_angle np) z = Inr p" "length p = length z"
    using elementwise_total[of "np_angle np" z] assms(1) by (auto simp: never_raises_def)
  show ?thesis
    using z a l db p by (simp add: db_phase_def and_then_def)
qed

lemma amp_phase_total:
  assumes "never_raises np" and "length real = length imag"
  shows "\<exists>amp phase. amp_phase np real imag = Inr (amp, phase) \<and>
           length amp = length real \<and> length phase = length real"
proof -
  obtain z where z: "real_plus_j_imag np real imag = Inr z" "length z = length real"
    using real_plus_j_imag_total[OF assms] by auto
  obtain a where a: "elementwise (np_abs np) z = Inr a" "length a = length z"
    using elementwise_total[of "np_abs np" z] assms(1) by (auto simp: never_raises_def)
  obtain amp where amp: "elementwise (np_square np) a = Inr amp" "length amp = length a"
    using elementwise_total[of "np_square np" a] assms(1) by (auto simp: never_raises_def)
  obtain p where p: "elementwise (np_angle np) z = Inr p" "length p = length z"
    using elementwise_total[of "np_angle np" z] assms(1) by (auto simp: never_raises_def)
  show ?thesis
    using z a amp p by (simp add: amp_phase_def and_then_def)
qed





text \<open>
  The rows of two: half as many as there were values, the values again when laid end to
  end, and the values at the even and at the odd positions when read by column.
\<close>

lemma rows_of_2_length: "length (rows_of_2 val) = length val div 2"
  by (induction val rule: rows_of_2.induct) simp_all

lemma rows_of_2_concat:
  "even (length val) \<Longrightarrow> concat (map (\<lambda>(x, y). [x, y]) (rows_of_2 val)) = val"
  by (induction val rule: rows_of_2.induct) simp_all

lemma rows_of_2_nth:
  "length val = 2 * N \<Longrightarrow>
     map fst (rows_of_2 val) = map (\<lambda>k. val ! (2 * k)) [0..<N] \<and>
     map snd (rows_of_2 val) = map (\<lambda>k. val ! (2 * k + 1)) [0..<N]"
proof (induction val arbitrary: N rule: rows_of_2.induct)
  case (1 x y rest)
  then obtain M where M: "N = Suc M" "length rest = 2 * M"
    by (cases N) auto
  show ?case
    using "1.IH"[OF M(2)] by (simp add: M(1) map_upt_Suc del: upt_Suc)
qed simp_all

subsection \<open>The conversion\<close>

text \<open>
  Once the payload is fetched and parsed, an even number of values leaves the choice of
  the format and an odd number ends in the error of the reshape.
\<close>

lemma get_data_converted:
  assumes "replies s = Reply stb # Reply payload # rest" and "py_int stb = Some 0"
    and "np_fromstring np payload = Inr val" and "even (length val)"
  shows "get_data np s trace data_format =
      (if lower data_format = ''real-imag'' then
         (Inr (Two (map fst (rows_of_2 val)) (map snd (rows_of_2 val))), fetched s trace rest)
       else if lower data_format = ''db-phase'' then
         (case db_phase np (map fst (rows_of_2 val)) (map snd (rows_of_2 val)) of
            Inr (db, phase) \<Rightarrow> (Inr (Two db phase), fetched s trace rest)
          | Inl RuntimeErrorInstance \<Rightarrow>
              (Inr (One (ones_like np (map fst (rows_of_2 val)))),
               log_record ERROR ''division by zero error - Phase'' (fetched s trace rest))
          | Inl OtherException \<Rightarrow> (Inl (NumpyException OtherException), fetched s trace rest))
       else if lower data_format = ''amp-phase'' then
         (case amp_phase np (map fst (rows_of_2 val)) (map snd (rows_of_2 val)) of
            Inr (amp, phase) \<Rightarrow> (Inr (Two amp phase), fetched s trace rest)
          | Inl RuntimeErrorInstance \<Rightarrow>
              (Inr (One (ones_like np (map fst (rows_of_2 val)))),
               log_record ERROR ''division by zero error - Amplitude'' (fetched s trace rest))
          | Inl OtherException \<Rightarrow> (Inl (NumpyException OtherException), fetched s trace rest))
       else (Inl (ValueError data_format_message), fetched s trace rest))"
  using assms(3,4) unfolding get_data_def
  by (subst get_data_fetch(1)[OF assms(1,2)], simp only: prod.case sum.case,
      subst get_data_fetch(2)[OF assms(1,2)])
    (simp add: reshape_2_def transpose_2_def)

lemma get_data_odd:
  assumes "replies s = Reply stb # Reply payload # rest" and "py_int stb = Some 0"
    and "np_fromstring np payload = Inr val" and "odd (length val)"
  shows "get_data np s trace data_format =
           (Inl (ReshapeValueError (length val)), fetched s trace rest)"
  using assms(3,4) unfolding get_data_def
  by (subst get_data_fetch(1)[OF assms(1,2)], simp only: prod.case sum.case,
      subst get_data_fetch(2)[OF assms(1,2)])
    (simp add: reshape_2_def)

lemma np_fromstring_symbolic:
  "np_fromstring symbolic ''1,0,0,1'' = Inr [Num 1, Num 0, Num 0, Num 1]"
  "np_fromstring symbolic ''1,0,0'' = Inr [Num 1, Num 0, Num 0]"
  by code_simp+

lemma never_raises_symbolic: "never_raises symbolic"
  by (simp add: never_raises_def symbolic_def)

text \<open>
  C5. For a format that is one of the three after lowercasing, a selection acknowledged
  with status 0 and a payload that parses to \<open>2 * N\<close> values, \<^verbatim>\<open>_get_data\<close> returns a
  tuple of two arrays of \<open>N\<close> elements each. The array library is taken not to raise, as
  NumPy does not on floats; the \<^verbatim>\<open>except RuntimeError\<close> clauses, which return one
  array, are then never entered.
\<close>

theorem get_data_two_sequences:
  assumes "lower data_format \<in> data_formats"
    and "replies s = Reply stb # Reply payload # rest" and "py_int stb = Some 0"
    and "np_fromstring np payload = Inr val" and "length val = 2 * N"
    and "never_raises np"
  shows "\<exists>a b. get_data np s trace data_format = (Inr (Two a b), fetched s trace rest) \<and>
           length a = N \<and> length b = N"
proof -
  let ?real = "map fst (rows_of_2 val)" and ?imag = "map snd (rows_of_2 val)"
  have len: "length ?real = N" "length ?imag = N"
    using assms(5) by (simp_all add: rows_of_2_length)
  have even: "even (length val)"
    using assms(5) by simp
  note g = get_data_converted[OF assms(2,3,4) even, of trace data_format]
  obtain db ph where d: "db_phase np ?real ?imag = Inr (db, ph)" "length db = N" "length ph = N"
    using db_phase_total[OF assms(6), of ?real ?imag] len by auto
  obtain amp ph' where a: "amp_phase np ?real ?imag = Inr (amp, ph')" "length amp = N" "length ph' = N"
    using amp_phase_total[OF assms(6), of ?real ?imag] len by auto
  show ?thesis
    unfolding g using d a len assms(1) by (auto simp: data_formats_def)
qed

text \<open>The format \<^verbatim>\<open>amp-phase\<close> on a payload of four values: two arrays of two.\<close>

theorem get_data_two_sequences_witness:
  "lower ''amp-phase'' \<in> data_formats \<and> never_raises symbolic \<and>
   (\<exists>a b. get_data symbolic (session [Reply ''0'', Reply ''1,0,0,1'']) ''Trc1'' ''amp-phase'' =
             (Inr (Two a b), fetched (session [Reply ''0'', Reply ''1,0,0,1'']) ''Trc1'' []) \<and>
           length a = 2 \<and> length b = 2)"
proof -
  have f: "lower ''amp-phase'' \<in> data_formats"
    by (simp add: lower_def lower_char_def data_formats_def)
  have r: "replies (session [Reply ''0'', Reply ''1,0,0,1'']) = [Reply ''0'', Reply ''1,0,0,1'']"
    by (simp add: session_def)
  have l: "length [Num 1, Num 0, Num 0, Num 1] = 2 * 2"
    by simp
  show ?thesis
    using get_data_two_sequences[OF f r py_int_0 np_fromstring_symbolic(1) l never_raises_symbolic,
        of "''Trc1''"] f never_raises_symbolic
    by simp
qed

text \<open>
  C8. For the format \<^verbatim>\<open>real-imag\<close>, on a payload that parses to the values
  \<open>r1, i1, ..., rN, iN\<close>, the first array returned is the values at the even positions
  and the second the values at the odd positions, as the parser gave them.
\<close>

theorem get_data_real_imag:
  assumes "lower data_format = ''real-imag''"
    and "replies s = Reply stb # Reply payload # rest" and "py_int stb = Some 0"
    and "np_fromstring np payload = Inr val" and "length val = 2 * N"
  shows "get_data np s trace data_format =
           (Inr (Two (map (\<lambda>k. val ! (2 * k)) [0..<N]) (map (\<lambda>k. val ! (2 * k + 1)) [0..<N])),
            fetched s trace rest)"
proof -
  have even: "even (length val)"
    using assms(5) by simp
  show ?thesis
    using get_data_converted[OF assms(2,3,4) even, of trace data_format] assms(1)
      rows_of_2_nth[OF assms(5)]
    by simp
qed

text \<open>The payload \<^verbatim>\<open>1,0,0,1\<close> comes back as the arrays \<open>1, 0\<close> and \<open>0, 1\<close>.\<close>

theorem get_data_real_imag_witness:
  "lower ''Real-Imag'' = ''real-imag'' \<and>
   get_data symbolic (session [Reply ''0'', Reply ''1,0,0,1'']) ''Trc1'' ''Real-Imag'' =
     (Inr (Two [Num 1, Num 0] [Num 0, Num 1]),
      fetched (session [Reply ''0'', Reply ''1,0,0,1'']) ''Trc1'' [])"
proof -
  have f: "lower ''Real-Imag'' = ''real-imag''"
    by code_simp
  have r: "replies (session [Reply ''0'', Reply ''1,0,0,1'']) = [Reply ''0'', Reply ''1,0,0,1'']"
    by (simp add: session_def)
  have l: "length [Num 1, Num 0, Num 0, Num 1] = 2 * 2"
    by simp
  have u: "[0..<2] = [0, Suc 0]"
    by (simp add: upt_rec)
  show ?thesis
    using get_data_real_imag[OF f r py_int_0 np_fromstring_symbolic(1) l, of "''Trc1''"] f
    by (simp add: u)
qed





text \<open>
  C10. On a fetched payload, an odd number of values makes \<^verbatim>\<open>_get_data\<close> raise the
  error of the reshape whatever the format is, before anything is returned; an even
  number \<open>2 * N\<close> is cut into \<open>N\<close> rows that hold the values in order, and
  \<^verbatim>\<open>_get_data\<close> does not raise the error of the reshape.
\<close>

theorem get_data_needs_even_count:
  assumes "replies s = Reply stb # Reply payload # rest" and "py_int stb = Some 0"
    and "np_fromstring np payload = Inr val"
  shows "(odd (length val) \<longrightarrow>
            get_data np s trace data_format =
              (Inl (ReshapeValueError (length val)), fetched s trace rest)) \<and>
         (even (length val) \<longrightarrow>
            (\<exists>rows. reshape_2 val = Inr rows \<and> length rows = length val div 2 \<and>
                    concat (map (\<lambda>(x, y). [x, y]) rows) = val) \<and>
            (\<forall>n. fst (get_data np s trace data_format) \<noteq> Inl (ReshapeValueError n)))"
proof -
  have "fst (get_data np s trace data_format) \<noteq> Inl (ReshapeValueError n)"
    if "even (length val)" for n
    unfolding get_data_converted[OF assms that]
    by (auto split: sum.splits np_exc.splits)
  then show ?thesis
    using get_data_odd[OF assms, of trace data_format]
    by (auto simp: reshape_2_def rows_of_2_length rows_of_2_concat)
qed

text \<open>A payload of three values and a payload of four.\<close>

theorem get_data_needs_even_count_witness:
  "get_data symbolic (session [Reply ''0'', Reply ''1,0,0'']) ''Trc1'' ''db-phase'' =
     (Inl (ReshapeValueError 3), fetched (session [Reply ''0'', Reply ''1,0,0'']) ''Trc1'' []) \<and>
   (\<exists>rows. reshape_2 [Num 1, Num 0, Num 0, Num 1] = Inr rows \<and> length rows = 2 \<and>
           concat (map (\<lambda>(x, y). [x, y]) rows) = [Num 1, Num 0, Num 0, Num 1]) \<and>
   (\<forall>n. fst (get_data symbolic (session [Reply ''0'', Reply ''1,0,0,1'']) ''Trc1'' ''db-phase'') \<noteq>
          Inl (ReshapeValueError n))"
proof -
  have r3: "replies (session [Reply ''0'', Reply ''1,0,0'']) = [Reply ''0'', Reply ''1,0,0'']"
    and r4: "replies (session [Reply ''0'', Reply ''1,0,0,1'']) = [Reply ''0'', Reply ''1,0,0,1'']"
    by (simp_all add: session_def)
  have o: "odd (length [Num 1, Num 0, Num 0])"
    and e: "even (length [Num 1, Num 0, Num 0, Num 1])"
    and d: "length [Num 1, Num 0, Num 0, Num 1] div 2 = 2"
    by simp_all
  have "get_data symbolic (session [Reply ''0'', Reply ''1,0,0'']) ''Trc1'' ''db-phase'' =
      (Inl (ReshapeValueError (length [Num 1, Num 0, Num 0])),
       fetched (session [Reply ''0'', Reply ''1,0,0'']) ''Trc1'' [])"
    using get_data_needs_even_count[OF r3 py_int_0 np_fromstring_symbolic(2),
        of "''Trc1''" "''db-phase''"] o
    by blast
  moreover have "(\<exists>rows. reshape_2 [Num 1, Num 0, Num 0, Num 1] = Inr rows \<and>
        length rows = length [Num 1, Num 0, Num 0, Num 1] div 2 \<and>
        concat (map (\<lambda>(x, y). [x, y]) rows) = [Num 1, Num 0, Num 0, Num 1]) \<and>
      (\<forall>n. fst (get_data symbolic (session [Reply ''0'', Reply ''1,0,0,1'']) ''Trc1'' ''db-phase'') \<noteq>
             Inl (ReshapeValueError n))"
    using get_data_needs_even_count[OF r4 py_int_0 np_fromstring_symbolic(1),
        of "''Trc1''" "''db-phase''"] e
    by blast
  ultimately show ?thesis
    unfolding d by simp
qed

subsection \<open>The case of the format\<close>

lemma lower_char_idem: "lower_char (lower_char c) = lower_char c"
  by (auto simp: lower_char_def Let_def)

lemma lower_lower: "lower (lower s) = lower s"
  by (simp add: lower_def lower_char_idem)

lemma get_data_lower: "get_data np s trace (lower data_format) = get_data np s trace data_format"
  unfolding get_data_def lower_lower by (rule refl)

text \<open>
  No ValueError of the driver comes out of the command layer, and the transport raises
  nothing but its timeout; so the ValueError of the data format can only come from the
  last branch of \<^verbatim>\<open>_get_data\<close>.
\<close>

lemma connection_query_error:
  "connection_query s cmd = (Inl e, s') \<Longrightarrow> e = VisaIOError"
  by (auto simp: connection_query_def split: list.splits reply.splits)

lemma no_ValueError_from_io:
  "fst (write_cmd s cmd) \<noteq> Inl (ValueError m)"
  "fst (get_error_status s0) \<noteq> Inl (ValueError m)"
proof (induction s cmd and s0 rule: write_cmd_get_error_status.induct)
  case (1 s cmd)
  obtain res s1 where cw: "connection_write (log_record DEBUG (''[write]: '' @ cmd) s) cmd = (res, s1)"
    by force
  have "fst (get_error_status s1) \<noteq> Inl (ValueError m)"
    using 1[OF cw[symmetric]] .
  then show ?case
    by (subst write_cmd.simps, subst cw) (auto split: prod.splits sum.splits bool.splits)
next
  case (2 s)
  obtain x s1 where q1: "connection_query s ''*STB?'' = (x, s1)"
    by force
  show ?case
  proof (cases x)
    case (Inl e)
    then show ?thesis
      using connection_query_error[of s "''*STB?''" e s1] q1
      by (subst get_error_status.simps) (simp add: q1)
  next
    case (Inr stb)
    show ?thesis
    proof (cases "py_int stb")
      case None
      then show ?thesis
        by (subst get_error_status.simps) (simp add: q1 Inr)
    next
      case (Some n)
      show ?thesis
      proof (cases "n = 0")
        case True
        then show ?thesis
          by (subst get_error_status.simps) (simp add: q1 Inr Some)
      next
        case False
        obtain xa s2 where q2: "connection_query s1 ''SYSTem:ERRor:NEXT?'' = (xa, s2)"
          by force
        show ?thesis
        proof (cases xa)
          case (Inl a)
          have a: "a = VisaIOError"
            using connection_query_error[of s1 "''SYSTem:ERRor:NEXT?''" a s2] q2 Inl by simp
          have "fst (write_cmd s2 ''*CLS'') \<noteq> Inl (ValueError m)"
            using "2.IH"(1)[OF q1[symmetric] Inr Some False q2[symmetric] Inl] .
          then show ?thesis
            by (subst get_error_status.simps)
              (auto simp: q1 q2 Inr Some False Inl a split: prod.splits sum.splits)
        next
          case (Inr msg)
          let ?s3 = "log_record ERROR (''command failure: '' @ msg) s2"
          have "fst (write_cmd ?s3 ''*CLS'') \<noteq> Inl (ValueError m)"
            using "2.IH"(2)[OF q1[symmetric] \<open>x = Inr stb\<close> Some False q2[symmetric] Inr] .
          then show ?thesis
            by (subst get_error_status.simps)
              (auto simp: q1 q2 \<open>x = Inr stb\<close> Some False Inr split: prod.splits sum.splits)
        qed
      qed
    qed
  qed
qed

lemma get_data_known_format:
  assumes "lower data_format \<in> data_formats"
  shows "fst (get_data np s trace data_format) \<noteq> Inl (ValueError m)"
proof -
  obtain x s1 where w: "write_cmd s (select_command trace) = (x, s1)"
    by force
  obtain y s2 where q: "query s1 ''CALCulate:DATa? Sdata'' = (y, s2)"
    by force
  show ?thesis
  proof (cases x)
    case (Inl e)
    then show ?thesis
      using no_ValueError_from_io(1)[of s "select_command trace" m] w
      by (simp add: get_data_def)
  next
    case (Inr r)
    note xr = this
    show ?thesis
    proof (cases y)
      case (Inl e)
      then show ?thesis
        using connection_query_error[of _ "''CALCulate:DATa? Sdata''" e s2] q
        unfolding get_data_def w xr prod.case sum.case
        by (auto simp: query_def)
    next
      case (Inr payload)
      note yp = this
      show ?thesis
      proof (cases "np_fromstring np payload")
        case (Inl e)
        then show ?thesis
          unfolding get_data_def w xr prod.case sum.case q yp by simp
      next
        case (Inr val)
        note v = this
        show ?thesis
        proof (cases "even (length val)")
          case False
          then show ?thesis
            unfolding get_data_def w xr prod.case sum.case q yp v by (simp add: reshape_2_def)
        next
          case True
          then have r: "reshape_2 val = Inr (rows_of_2 val)"
            by (simp add: reshape_2_def)
          show ?thesis
            unfolding get_data_def w xr prod.case sum.case q yp v r transpose_2_def
            using assms
            by (cases "db_phase np (map fst (rows_of_2 val)) (map snd (rows_of_2 val))";
                cases "amp_phase np (map fst (rows_of_2 val)) (map snd (rows_of_2 val))")
              (auto simp: data_formats_def split: np_exc.split)
        qed
      qed
    qed
  qed
qed

text \<open>
  C9. \<^verbatim>\<open>_get_data\<close> does on a format what it does on its lowercase spelling, in
  result and in I/O; and it raises the ValueError of the data format only for a format
  that is none of the three names after lowercasing.
\<close>

theorem get_data_case_insensitive:
  "get_data np s trace data_format = get_data np s trace (lower data_format) \<and>
   (fst (get_data np s trace data_format) = Inl (ValueError data_format_message) \<longrightarrow>
      lower data_format \<notin> data_formats)"
  using get_data_lower[of np s trace data_format]
    get_data_known_format[of data_format np s trace data_format_message]
  by auto

text \<open>
  \<^verbatim>\<open>DB-PHASE\<close> gives what \<^verbatim>\<open>db-phase\<close> gives, and \<^verbatim>\<open>Real_Imag\<close>, which is no
  spelling of a format, raises.
\<close>

theorem get_data_case_insensitive_witness:
  "get_data symbolic (session [Reply ''0'', Reply ''1,0,0,1'']) ''Trc1'' ''DB-PHASE'' =
     get_data symbolic (session [Reply ''0'', Reply ''1,0,0,1'']) ''Trc1'' ''db-phase'' \<and>
   fst (get_data symbolic (session [Reply ''0'', Reply ''1,0,0,1'']) ''Trc1'' ''Real_Imag'') =
     Inl (ValueError data_format_message) \<and>
   lower ''Real_Imag'' \<notin> data_formats"
proof -
  have l: "lower ''DB-PHASE'' = ''db-phase''"
    by code_simp
  have e: "fst (get_data symbolic (session [Reply ''0'', Reply ''1,0,0,1'']) ''Trc1'' ''Real_Imag'') =
      Inl (ValueError data_format_message)"
    by code_simp
  show ?thesis
    using get_data_case_insensitive[of symbolic "session [Reply ''0'', Reply ''1,0,0,1'']"
        "''Trc1''" "''DB-PHASE''"]
      get_data_case_insensitive[of symbolic "session [Reply ''0'', Reply ''1,0,0,1'']"
        "''Trc1''" "''Real_Imag''"] e
    by (simp add: l)
qed

subsection \<open>Several traces\<close>

text \<open>
  The loop appends one result for each name, in order, and a tuple of one name gives the
  list of its one result.
\<close>

lemma for_trace_appends:
  "for_trace np data_format s traces temp = (Inr out, s') \<Longrightarrow>
     \<exists>ds. out = temp @ ds \<and> length ds = length traces"
proof (induction traces arbitrary: s temp)
  case Nil
  then show ?case by simp
next
  case (Cons trace traces)
  then show ?case
    by (fastforce split: prod.splits sum.splits)
qed

lemma get_traces_one:
  "get_traces np s [trace] data_format =
     (case get_data np s trace data_format of
        (Inl e, s') \<Rightarrow> (Inl e, s')
      | (Inr d, s') \<Rightarrow> (Inr [d], s'))"
  by (simp add: get_traces_def is_Tuple_str_def split: prod.splits sum.splits)

lemma get_traces_rejects:
  "length traces \<noteq> 1 \<Longrightarrow> get_traces np s traces data_format = (Inl ValidationError, s)"
  by (simp add: get_traces_def is_Tuple_str_def)

text \<open>
  C2. The docstring of \<^verbatim>\<open>get_traces\<close> asks for a tuple of names
  \<^verbatim>\<open>('trace1', 'trace2', ...)\<close> and promises one result for each. The declared type
  \<^verbatim>\<open>Tuple[str]\<close> admits one name only: on \<^verbatim>\<open>("Trc1", "Trc2")\<close> with the format
  \<^verbatim>\<open>db-phase\<close> the call is rejected with a ValidationError before the loop runs and
  before any I/O, for every session.
\<close>

theorem get_traces_two_names:
  "get_traces np s [''Trc1'', ''Trc2''] ''db-phase'' = (Inl ValidationError, s)"
  by (simp add: get_traces_def is_Tuple_str_def)

end
